theory Spec2Isabelle
  imports Main
begin

section \<open>Error codes\<close>

text \<open>
  Modelled from the spec: the error codes and the macros \<open>MPIR_ERR_CHKANDJUMP\<close>
  and \<open>MPIR_ERR_CHKANDJUMP1\<close> are declared outside \<open>src/\<close>.  Spec 7: a failure
  is reported and propagated through the single exit path of the operation.
  An MPI function returns an error code, of which \<open>MPI_SUCCESS\<close> alone tests
  false in \<open>if (mpi_errno)\<close>.  When the condition of the macro holds,
  \<open>mpi_errno\<close> becomes a newly created code, made from the previous code, the
  error class and the message key, and control goes to \<open>fn_fail\<close>; the created
  code is the constructor \<open>MPIR_Err_create_code\<close>.
\<close>

datatype mpi_errno =
    MPI_SUCCESS
  | MPI_ERR_OTHER
  | MPIR_Err_create_code mpi_errno mpi_errno string

section \<open>Communicator objects and reference counting\<close>

text \<open>
  \<open>struct MPIR_Comm\<close>, restricted to the fields read or written by the functions
  embedded below: the object header (\<open>handle\<close>, \<open>ref_count\<close>), \<open>rank\<close>,
  \<open>local_size\<close> and the \<open>node_comm\<close> pointer (\<open>None\<close> is \<open>NULL\<close>).
\<close>

datatype MPIR_Comm =
  MPIR_Comm (handle: int) (ref_count: int) (rank: int) (local_size: int)
            (node_comm: "MPIR_Comm option")

fun set_ref_count :: "int \<Rightarrow> MPIR_Comm \<Rightarrow> MPIR_Comm" where
  "set_ref_count v (MPIR_Comm h r rk ls nc) = MPIR_Comm h v rk ls nc"

text \<open>
  Communicators live in memory and are passed by pointer: \<open>objs\<close> maps an address
  to the object stored there.  \<open>delete_calls\<close> logs, in order, the pointers
  \<open>MPIR_Comm_delete_internal\<close> has been invoked on.
\<close>

record comm_store =
  objs :: "nat \<rightharpoonup> MPIR_Comm"
  delete_calls :: "nat list"

text \<open>
  Modelled from the spec: the macro \<open>MPIR_Object_release_ref\<close> behind
  \<open>MPIR_Comm_release_ref\<close> is declared outside \<open>src/\<close>.  Spec 4.1:
  \<open>release_ref\<close> decrements the count; \<open>inuse\<close> receives the remaining count,
  which is zero exactly when no reference is pending.  Dereferencing a pointer
  that holds no object is undefined behaviour (\<open>None\<close>).
\<close>

definition MPIR_Comm_release_ref :: "nat \<Rightarrow> comm_store \<Rightarrow> (int \<times> comm_store) option" where
  "MPIR_Comm_release_ref comm_ptr s =
     (case objs s comm_ptr of
        None \<Rightarrow> None
      | Some c \<Rightarrow>
          let c' = set_ref_count (ref_count c - 1) c
          in Some (ref_count c', s\<lparr>objs := (objs s)(comm_ptr \<mapsto> c')\<rparr>))"

text \<open>
  \<open>MPIR_Comm_release\<close>.  \<open>MPIR_Comm_delete_internal\<close> is only declared in
  \<open>src/\<close>; it is the parameter \<open>delete_internal\<close>, acting on the object memory.
\<close>

definition MPIR_Comm_release ::
  "(nat \<Rightarrow> (nat \<rightharpoonup> MPIR_Comm) \<Rightarrow> mpi_errno \<times> (nat \<rightharpoonup> MPIR_Comm)) \<Rightarrow>
   nat \<Rightarrow> comm_store \<Rightarrow> (mpi_errno \<times> comm_store) option" where
  "MPIR_Comm_release delete_internal comm_ptr s =
     (case MPIR_Comm_release_ref comm_ptr s of
        None \<Rightarrow> None
      | Some (in_use, s1) \<Rightarrow>
          if in_use = 0 then
            (let (mpi_errno, m) = delete_internal comm_ptr (objs s1)
             in Some (mpi_errno,
                      s1\<lparr>objs := m, delete_calls := delete_calls s1 @ [comm_ptr]\<rparr>))
          else Some (MPI_SUCCESS, s1))"

section \<open>Strings of the C library\<close>

text \<open>
  A C string is modelled by the list of its characters before the terminating
  NUL, so \<open>strlen\<close> is \<open>length\<close>.
\<close>

text \<open>
  Modelled from the spec: \<open>MPL_strsep\<close> is part of the repository but not under
  \<open>src/\<close>.  Spec 4.5: the affinity specification is a delimiter-separated list;
  the source comment says the buffer is modified as by \<open>strsep\<close>.  The call
  returns \<open>NULL\<close> when \<open>*stringp\<close> is \<open>NULL\<close>; otherwise it returns the characters
  up to the first delimiter (possibly none) and advances \<open>*stringp\<close> behind that
  delimiter, or sets it to \<open>NULL\<close> when the string ended without one.
\<close>

fun strsep_scan :: "string \<Rightarrow> string \<Rightarrow> string \<times> string option" where
  "strsep_scan delim [] = ([], None)"
| "strsep_scan delim (c # cs) =
     (if c \<in> set delim then ([], Some cs)
      else (case strsep_scan delim cs of (tok, rest) \<Rightarrow> (c # tok, rest)))"

definition MPL_strsep :: "string option \<Rightarrow> string \<Rightarrow> string option \<times> string option" where
  "MPL_strsep stringp delim =
     (case stringp of
        None \<Rightarrow> (None, None)
      | Some str \<Rightarrow> (case strsep_scan delim str of (tok, rest) \<Rightarrow> (Some tok, rest)))"

text \<open>
  \<open>atoi\<close> of the C library (ISO C 7.22.1): leading white space is skipped, an
  optional sign is read, then the longest run of decimal digits; no digits give
  0.  When the value cannot be represented in an \<open>int\<close> the behaviour is
  undefined: \<open>None\<close>.
\<close>

definition INT_MAX :: int where "INT_MAX = 2147483647"
definition INT_MIN :: int where "INT_MIN = - 2147483648"

definition isspace :: "char \<Rightarrow> bool" where
  "isspace c \<longleftrightarrow>
     c \<in> set [CHR '' '', CHR 0x09, CHR 0x0A, CHR 0x0B, CHR 0x0C, CHR 0x0D]"

definition isdigit :: "char \<Rightarrow> bool" where
  "isdigit c \<longleftrightarrow> c \<in> set ''0123456789''"

definition digit_val :: "char \<Rightarrow> int" where
  "digit_val c = int (of_char c) - 48"

fun digits_val :: "int \<Rightarrow> string \<Rightarrow> int" where
  "digits_val acc [] = acc"
| "digits_val acc (c # cs) =
     (if isdigit c then digits_val (10 * acc + digit_val c) cs else acc)"

definition strtol10 :: "string \<Rightarrow> int" where
  "strtol10 str =
     (case dropWhile isspace str of
        [] \<Rightarrow> 0
      | c # cs \<Rightarrow>
          if c = CHR ''-'' then - digits_val 0 cs
          else if c = CHR ''+'' then digits_val 0 cs
          else digits_val 0 (c # cs))"

definition atoi :: "string \<Rightarrow> int option" where
  "atoi str =
     (let v = strtol10 str in if INT_MIN \<le> v \<and> v \<le> INT_MAX then Some v else None)"

text \<open>
  Conversions between \<open>int\<close> and \<open>size_t\<close> (64 bits, a natural number below
  \<open>2 ^ 64\<close>): to \<open>size_t\<close> modulo \<open>2 ^ 64\<close>, back to \<open>int\<close> by two's
  complement truncation to 32 bits.
\<close>

definition size_t_of_int :: "int \<Rightarrow> nat" where
  "size_t_of_int i = nat (i mod 2 ^ 64)"

definition int_of_size_t :: "nat \<Rightarrow> int" where
  "int_of_size_t n = (int n + 2 ^ 31) mod 2 ^ 32 - 2 ^ 31"

section \<open>Asynchronous progress thread manager\<close>

subsection \<open>Environment, effects and state\<close>

text \<open>
  Modelled from the spec: \<open>MPI_THREAD_MULTIPLE\<close> is declared outside \<open>src/\<close>.
  Spec 4.5: it is the highest, fully concurrent thread-support mode; the four
  modes are numbered 0 to 3.
\<close>

definition MPI_THREAD_MULTIPLE :: int where "MPI_THREAD_MULTIPLE = 3"

text \<open>
  What the manager reads from outside: the control variables, the thread level
  granted at initialization, \<open>MPIR_Process.comm_world\<close>, and the answers of the
  platform calls it makes.  \<open>MPID_Thread_create\<close> is the pair of the error
  number and the id of the new thread; \<open>MPL_thread_set_affinity\<close> gives the
  error number of pinning a thread to a list of processors; \<open>uninitialized\<close>
  is the indeterminate content of freshly allocated memory.
\<close>

record mpi_env =
  MPIR_CVAR_ASYNC_PROGRESS :: int
  MPIR_CVAR_CH4_PROGRESS_THREAD_AFFINITY :: "string option"
  MPIR_CVAR_NUM_CLIQUES :: int
  MPIR_CVAR_ODD_EVEN_CLIQUES :: int
  thread_provided :: int
  comm_world :: MPIR_Comm
  MPL_get_nprocs :: int
  MPID_Thread_create :: "int \<times> nat"
  MPL_thread_set_affinity :: "nat \<Rightarrow> int list \<Rightarrow> int"
  uninitialized :: int

datatype message =
    Err_unexpected_proc_id string string
  | Err_unexpected_end int int string
  | Err_unexpected_number string
  | Warn_cliques_affinity
  | Warn_no_thread_multiple

datatype effect =
    Printf message
  | Fprintf_stderr message
  | Malloc_ints int
  | Free_ints
  | Thread_create nat
  | Thread_set_affinity nat "int list"
  | Atomic_store int
  | Thread_join nat

text \<open>
  The file-level variables \<open>MPIR_async_thread_initialized\<close>,
  \<open>progress_thread_id\<close> and \<open>async_done\<close>, the progress threads created and not
  yet joined (\<open>running\<close>), and the log of effects on the outside.
\<close>

record async_state =
  MPIR_async_thread_initialized :: int
  progress_thread_id :: nat
  async_done :: int
  running :: "nat list"
  effects :: "effect list"

definition emit :: "effect list \<Rightarrow> async_state \<Rightarrow> async_state" where
  "emit es s = s\<lparr>effects := effects s @ es\<rparr>"

subsection \<open>The worker\<close>

text \<open>
  \<open>progress_fn\<close>, as the sequence of its steps: entering and leaving the global
  critical section, the calls of the progress engine, the yield and the loads
  of \<open>async_done\<close>.  The argument lists the values the successive
  \<open>MPL_atomic_load_int(&async_done)\<close> return, whatever the other threads do in
  between; the loop leaves at the first value different from 0.  \<open>None\<close>: the
  loop is still running when the listed loads are used up.
\<close>

datatype worker_step =
    CS_ENTER | Progress_start | Load_async_done int | Progress_test | CS_YIELD
  | Progress_end | CS_EXIT

fun progress_loop :: "int list \<Rightarrow> worker_step list option" where
  "progress_loop [] = None"
| "progress_loop (v # vs) =
     (if v = 0 then
        map_option (\<lambda>tr. [Load_async_done v, Progress_test, CS_YIELD] @ tr) (progress_loop vs)
      else Some [Load_async_done v])"

definition progress_fn :: "int list \<Rightarrow> worker_step list option" where
  "progress_fn loads =
     map_option (\<lambda>tr. [CS_ENTER, Progress_start] @ tr @ [Progress_end, CS_EXIT])
       (progress_loop loads)"

subsection \<open>Parsing the affinity specification\<close>

definition affinity_delims :: string where
  "affinity_delims = [CHR '' '', CHR 0x0A, CHR 0x09, CHR '','']"

text \<open>
  The loop generating the default affinity.  \<open>th_idx < proc_count\<close> compares in
  \<open>size_t\<close>; in that branch \<open>proc_count - th_idx - 1\<close> does not wrap.  In the
  other branch \<open>th_idx % proc_count\<close> divides by zero when \<open>proc_count\<close> is 0
  (undefined: \<open>None\<close>).  A write behind the end of the array is undefined.
\<close>

function default_affinity_loop :: "nat \<Rightarrow> int \<Rightarrow> int \<Rightarrow> int list \<Rightarrow> int list option" where
  "default_affinity_loop proc_count threads_per_node th_idx thread_affinity =
     (if th_idx < threads_per_node then
        (if 0 \<le> th_idx \<and> nat th_idx < length thread_affinity then
           (if size_t_of_int th_idx < proc_count then
              default_affinity_loop proc_count threads_per_node (th_idx + 1)
                (thread_affinity[nat th_idx :=
                   int_of_size_t (proc_count - size_t_of_int th_idx - 1)])
            else if proc_count = 0 then None
            else
              default_affinity_loop proc_count threads_per_node (th_idx + 1)
                (thread_affinity[nat th_idx :=
                   thread_affinity ! (size_t_of_int th_idx mod proc_count)]))
         else None)
      else Some thread_affinity)"
  by pat_completeness auto
termination
  by (relation "measure (\<lambda>(p, n, i, a). nat (n - i))") auto

text \<open>
  The loop reading one entry per thread slot.  The result carries the error
  code, the array, \<open>read_count\<close> and what was printed.
\<close>

function parse_affinity_loop ::
  "string \<Rightarrow> int \<Rightarrow> int \<Rightarrow> string option \<Rightarrow> int list \<Rightarrow> int \<Rightarrow>
   (mpi_errno \<times> int list \<times> int \<times> effect list) option" where
  "parse_affinity_loop affinity_to_parse threads_per_node th_idx tmp thread_affinity read_count =
     (if th_idx < threads_per_node then
        (case MPL_strsep tmp affinity_delims of
           (Some proc_id_str, tmp') \<Rightarrow>
             (case atoi proc_id_str of
                None \<Rightarrow> None
              | Some v \<Rightarrow>
                  if v < 0 then
                    Some (MPI_ERR_OTHER, thread_affinity, read_count,
                          [Printf (Err_unexpected_proc_id proc_id_str affinity_to_parse)])
                  else if 0 \<le> th_idx \<and> nat th_idx < length thread_affinity then
                    parse_affinity_loop affinity_to_parse threads_per_node (th_idx + 1) tmp'
                      (thread_affinity[nat th_idx := v]) (read_count + 1)
                  else None)
         | (None, tmp') \<Rightarrow>
             Some (MPI_ERR_OTHER, thread_affinity, read_count,
                   [Printf (Err_unexpected_end threads_per_node read_count affinity_to_parse)]))
      else Some (MPI_SUCCESS, thread_affinity, read_count, []))"
  by pat_completeness auto
termination
  by (relation "measure (\<lambda>(a, n, i, t, arr, rc). nat (n - i))") auto

text \<open>
  \<open>MPIDI_parse_progress_thread_affinity\<close>: the error code, the array and what
  was printed.  The copy made by \<open>MPL_strdup\<close> is the string itself (the copy
  is assumed to succeed); debug logging at \<open>fn_exit\<close> is not part of the state.
\<close>

definition MPIDI_parse_progress_thread_affinity ::
  "mpi_env \<Rightarrow> int list \<Rightarrow> int \<Rightarrow> (mpi_errno \<times> int list \<times> effect list) option" where
  "MPIDI_parse_progress_thread_affinity env thread_affinity threads_per_node =
     (let generate_default =
            map_option (\<lambda>a. (MPI_SUCCESS, a, []))
              (default_affinity_loop (size_t_of_int (MPL_get_nprocs env))
                 threads_per_node 0 thread_affinity)
      in case MPIR_CVAR_CH4_PROGRESS_THREAD_AFFINITY env of
           None \<Rightarrow> generate_default
         | Some affinity_to_parse \<Rightarrow>
             if length affinity_to_parse = 0 then generate_default
             else
               (case parse_affinity_loop affinity_to_parse threads_per_node 0
                       (Some affinity_to_parse) thread_affinity 0 of
                  None \<Rightarrow> None
                | Some (mpi_errno, a, read_count, printed) \<Rightarrow>
                    if mpi_errno \<noteq> MPI_SUCCESS then Some (mpi_errno, a, printed)
                    else if read_count < threads_per_node then
                      Some (MPI_ERR_OTHER, a,
                            printed @ [Printf (Err_unexpected_number affinity_to_parse)])
                    else Some (MPI_SUCCESS, a, printed)))"

subsection \<open>Starting and stopping the progress thread\<close>

definition user_affinity :: "mpi_env \<Rightarrow> bool" where
  \<comment> \<open>\<open>MPIR_CVAR_CH4_PROGRESS_THREAD_AFFINITY && strlen(...) > 0\<close>\<close>
  "user_affinity env =
     (case MPIR_CVAR_CH4_PROGRESS_THREAD_AFFINITY env of
        None \<Rightarrow> False
      | Some str \<Rightarrow> length str > 0)"

text \<open>
  Three values \<open>MPIR_Init_async_thread\<close> computes from the control variables
  and \<open>MPIR_Process.comm_world\<close>: \<open>num_cliques\<close> (source lines 543-547),
  \<open>threads_per_node\<close>, which is \<open>local_size\<close> (lines 558-569), and
  \<open>affinity_idx\<close> (lines 555-557 and 585-591).
\<close>

definition num_cliques :: "mpi_env \<Rightarrow> int" where
  "num_cliques env =
     (if MPIR_CVAR_NUM_CLIQUES env > 1 then MPIR_CVAR_NUM_CLIQUES env
      else if MPIR_CVAR_ODD_EVEN_CLIQUES env \<noteq> 0 then 2 else 1)"

definition threads_per_node :: "mpi_env \<Rightarrow> int" where
  "threads_per_node env =
     (if num_cliques env > 1 then local_size (comm_world env)
      else (case node_comm (comm_world env) of
              Some nc \<Rightarrow> local_size nc
            | None \<Rightarrow> 1))"

definition affinity_idx :: "mpi_env \<Rightarrow> int" where
  "affinity_idx env =
     (let global_rank = rank (comm_world env);
          local_rank = (case node_comm (comm_world env) of
                          Some nc \<Rightarrow> rank nc
                        | None \<Rightarrow> 0)
      in if num_cliques env > 1 then global_rank else local_rank)"

text \<open>
  \<open>MPIR_Init_async_thread\<close> in a build with \<open>MPI_THREAD_MULTIPLE\<close>.  The table
  has \<open>threads_per_node\<close> entries (the allocation is assumed to succeed);
  reading it outside is undefined (\<open>None\<close>).  A thread that has been created
  runs \<open>progress_fn\<close> and is in \<open>running\<close> until it is joined.  Every exit
  goes through \<open>fn_exit\<close>, which frees the table.
\<close>

definition MPIR_Init_async_thread_mt ::
  "mpi_env \<Rightarrow> async_state \<Rightarrow> (mpi_errno \<times> async_state) option" where
  "MPIR_Init_async_thread_mt env s =
     (let s1 = (if num_cliques env > 1 \<and> user_affinity env
                then emit [Fprintf_stderr Warn_cliques_affinity] s else s);
          thread_affinity = replicate (nat (threads_per_node env)) (uninitialized env);
          s2 = emit [Malloc_ints (threads_per_node env)] s1
      in case MPIDI_parse_progress_thread_affinity env thread_affinity (threads_per_node env) of
           None \<Rightarrow> None
         | Some (parse_errno, thread_affinity', printed) \<Rightarrow>
             let s3 = emit printed s2 in
             if parse_errno \<noteq> MPI_SUCCESS then
               Some (MPIR_Err_create_code parse_errno MPI_ERR_OTHER
                       ''**ch4|parse_thread_affinity'',
                     emit [Free_ints] s3)
             else
               (case MPID_Thread_create env of (err, tid) \<Rightarrow>
                  if err \<noteq> 0 then
                    Some (MPIR_Err_create_code MPI_SUCCESS MPI_ERR_OTHER ''**mutex_create'',
                          emit [Free_ints] s3)
                  else
                    let s4 = emit [Thread_create tid]
                               (s3\<lparr>progress_thread_id := tid, running := running s3 @ [tid]\<rparr>)
                    in if 0 \<le> affinity_idx env \<and>
                          nat (affinity_idx env) < length thread_affinity' then
                         let cores = [thread_affinity' ! nat (affinity_idx env)];
                             thr_err = MPL_thread_set_affinity env (progress_thread_id s4) cores;
                             s5 = emit [Thread_set_affinity (progress_thread_id s4) cores] s4
                         in if user_affinity env \<and> thr_err \<noteq> 0 then
                              Some (MPIR_Err_create_code MPI_SUCCESS MPI_ERR_OTHER
                                      ''**ch4|set_thread_affinity'',
                                    emit [Free_ints] s5)
                            else Some (MPI_SUCCESS, emit [Free_ints] s5)
                       else None))"

text \<open>
  Modelled from the spec: \<open>MPL_atomic_store_int\<close> and \<open>MPID_Thread_join\<close> are
  declared outside \<open>src/\<close>.  Spec 4.5: shutdown atomically sets the stop flag,
  then blocks until the thread has joined.  The store is one step; the join
  returns once the thread has ended, so the thread is no longer running.
\<close>

definition MPL_atomic_store_int :: "int \<Rightarrow> async_state \<Rightarrow> async_state" where
  "MPL_atomic_store_int v s = emit [Atomic_store v] (s\<lparr>async_done := v\<rparr>)"

definition MPID_Thread_join :: "nat \<Rightarrow> async_state \<Rightarrow> async_state" where
  "MPID_Thread_join tid s = emit [Thread_join tid] (s\<lparr>running := removeAll tid (running s)\<rparr>)"

definition MPIR_Finalize_async_thread_mt :: "async_state \<Rightarrow> mpi_errno \<times> async_state" where
  "MPIR_Finalize_async_thread_mt s =
     (let s1 = MPL_atomic_store_int 1 s;
          s2 = MPID_Thread_join (progress_thread_id s1) s1
      in (MPI_SUCCESS, s2))"

text \<open>
  \<open>MPII_init_async\<close> and \<open>MPII_finalize_async\<close>.  The device hooks
  \<open>MPID_Init_async_thread\<close> and \<open>MPID_Finalize_async_thread\<close> are not under
  \<open>src/\<close>; they are parameters.
\<close>

definition MPII_init_async_mt ::
  "(async_state \<Rightarrow> (mpi_errno \<times> async_state) option) \<Rightarrow> mpi_env \<Rightarrow> async_state \<Rightarrow>
   (mpi_errno \<times> async_state) option" where
  "MPII_init_async_mt MPID_Init_async_thread env s =
     (if MPIR_CVAR_ASYNC_PROGRESS env \<noteq> 0 then
        (if thread_provided env = MPI_THREAD_MULTIPLE then
           (case MPID_Init_async_thread s of
              None \<Rightarrow> None
            | Some (mpi_errno, s1) \<Rightarrow>
                if mpi_errno \<noteq> MPI_SUCCESS then Some (mpi_errno, s1)
                else Some (mpi_errno, s1\<lparr>MPIR_async_thread_initialized := 1\<rparr>))
         else Some (MPI_SUCCESS, emit [Printf Warn_no_thread_multiple] s))
      else Some (MPI_SUCCESS, s))"

definition MPII_finalize_async_mt ::
  "(async_state \<Rightarrow> mpi_errno \<times> async_state) \<Rightarrow> async_state \<Rightarrow> mpi_errno \<times> async_state" where
  "MPII_finalize_async_mt MPID_Finalize_async_thread s =
     (if MPIR_async_thread_initialized s \<noteq> 0 then MPID_Finalize_async_thread s
      else (MPI_SUCCESS, s))"

subsection \<open>The four entry points under the build configuration\<close>

text \<open>
  The bodies above are compiled when \<open>MPICH_IS_THREADED\<close> is defined and
  \<open>MPICH_THREAD_LEVEL == MPI_THREAD_MULTIPLE\<close>; otherwise the \<open>#else\<close> branch
  defines the four functions as \<open>return MPI_SUCCESS\<close>.
\<close>

record build_config =
  MPICH_IS_THREADED :: bool
  MPICH_THREAD_LEVEL :: int

definition threads_compiled_in :: "build_config \<Rightarrow> bool" where
  "threads_compiled_in cfg \<longleftrightarrow>
     MPICH_IS_THREADED cfg \<and> MPICH_THREAD_LEVEL cfg = MPI_THREAD_MULTIPLE"

definition MPIR_Init_async_thread ::
  "build_config \<Rightarrow> mpi_env \<Rightarrow> async_state \<Rightarrow> (mpi_errno \<times> async_state) option" where
  "MPIR_Init_async_thread cfg env s =
     (if threads_compiled_in cfg then MPIR_Init_async_thread_mt env s
      else Some (MPI_SUCCESS, s))"

definition MPIR_Finalize_async_thread ::
  "build_config \<Rightarrow> async_state \<Rightarrow> mpi_errno \<times> async_state" where
  "MPIR_Finalize_async_thread cfg s =
     (if threads_compiled_in cfg then MPIR_Finalize_async_thread_mt s
      else (MPI_SUCCESS, s))"

definition MPII_init_async ::
  "build_config \<Rightarrow> (async_state \<Rightarrow> (mpi_errno \<times> async_state) option) \<Rightarrow> mpi_env \<Rightarrow>
   async_state \<Rightarrow> (mpi_errno \<times> async_state) option" where
  "MPII_init_async cfg MPID_Init_async_thread env s =
     (if threads_compiled_in cfg then MPII_init_async_mt MPID_Init_async_thread env s
      else Some (MPI_SUCCESS, s))"

definition MPII_finalize_async ::
  "build_config \<Rightarrow> (async_state \<Rightarrow> mpi_errno \<times> async_state) \<Rightarrow> async_state \<Rightarrow>
   mpi_errno \<times> async_state" where
  "MPII_finalize_async cfg MPID_Finalize_async_thread s =
     (if threads_compiled_in cfg then MPII_finalize_async_mt MPID_Finalize_async_thread s
      else (MPI_SUCCESS, s))"

section \<open>Notions used to state the properties\<close>


text \<open>The number written by a string of decimal digits.\<close>

definition decimal_value :: "string \<Rightarrow> int" where
  "decimal_value str = foldl (\<lambda>a c. 10 * a + digit_val c) 0 str"

text \<open>
  An entry of a well-formed specification: a non-empty string of decimal digits
  whose value is an \<open>int\<close>.
\<close>

definition affinity_entry :: "string \<Rightarrow> bool" where
  "affinity_entry str \<longleftrightarrow>
     str \<noteq> [] \<and> list_all isdigit str \<and> decimal_value str \<le> INT_MAX"

text \<open>
  A specification with the entries \<open>e # map snd rest\<close>, each entry of \<open>rest\<close>
  preceded by its separating character.
\<close>

definition affinity_spec :: "string \<Rightarrow> (char \<times> string) list \<Rightarrow> string" where
  "affinity_spec e rest = e @ concat (map (\<lambda>(d, e'). d # e') rest)"

definition clique_override :: "mpi_env \<Rightarrow> bool" where
  "clique_override env \<longleftrightarrow>
     MPIR_CVAR_NUM_CLIQUES env > 1 \<or> MPIR_CVAR_ODD_EVEN_CLIQUES env \<noteq> 0"

section \<open>Example inputs\<close>

text \<open>
  A process with rank 1 of 4 in \<open>MPI_COMM_WORLD\<close> and rank 1 of 2 on its node,
  on a machine with 4 processors, no affinity specification and no clique
  override; thread creation and pinning succeed.
\<close>

definition example_env :: mpi_env where
  "example_env =
     \<lparr>MPIR_CVAR_ASYNC_PROGRESS = 1,
      MPIR_CVAR_CH4_PROGRESS_THREAD_AFFINITY = None,
      MPIR_CVAR_NUM_CLIQUES = 1,
      MPIR_CVAR_ODD_EVEN_CLIQUES = 0,
      thread_provided = 3,
      comm_world = MPIR_Comm 0 1 1 4 (Some (MPIR_Comm 0 1 1 2 None)),
      MPL_get_nprocs = 4,
      MPID_Thread_create = (0, 7),
      MPL_thread_set_affinity = (\<lambda>tid cores. 0),
      uninitialized = 0\<rparr>"

text \<open>The state of the manager when the library is loaded.\<close>

definition initial_state :: async_state where
  "initial_state =
     \<lparr>MPIR_async_thread_initialized = 0, progress_thread_id = 0, async_done = 0,
      running = [], effects = []\<rparr>"

section \<open>Properties of communicator release\<close>

lemma ref_count_set_ref_count: "ref_count (set_ref_count v c) = v"
  by (cases c) simp

text \<open>
  Claim C1.  \<open>MPIR_Comm_release\<close> on a pointer to a communicator \<open>c\<close> stores the
  object with its reference count decremented by one (once).  If the new count
  is zero it invokes \<open>MPIR_Comm_delete_internal\<close> (exactly one invocation is
  logged, on that pointer, on the memory holding the decremented object) and
  returns its error code; otherwise it invokes no deletion (the log is
  unchanged), changes nothing else and returns \<open>MPI_SUCCESS\<close>.
\<close>

theorem MPIR_Comm_release_correct:
  assumes "objs s comm_ptr = Some c"
  shows "ref_count (set_ref_count (ref_count c - 1) c) = ref_count c - 1 \<and>
         MPIR_Comm_release delete_internal comm_ptr s =
           (let m = (objs s)(comm_ptr \<mapsto> set_ref_count (ref_count c - 1) c) in
            if ref_count c - 1 = 0 then
              Some (fst (delete_internal comm_ptr m),
                    s\<lparr>objs := snd (delete_internal comm_ptr m),
                      delete_calls := delete_calls s @ [comm_ptr]\<rparr>)
            else Some (MPI_SUCCESS, s\<lparr>objs := m\<rparr>))"
  using assms
  by (simp add: MPIR_Comm_release_def MPIR_Comm_release_ref_def Let_def
      ref_count_set_ref_count split: prod.splits)

theorem MPIR_Comm_release_correct_witness:
  "(let s = \<lparr>objs = [5 \<mapsto> MPIR_Comm 0 1 0 1 None, 6 \<mapsto> MPIR_Comm 0 2 0 1 None],
             delete_calls = []\<rparr>;
        del = (\<lambda>p m. (MPI_ERR_OTHER, m(p := None)))
    in map_option (\<lambda>(e, s'). (e, map_option ref_count (objs s' 5), delete_calls s'))
         (MPIR_Comm_release del 5 s) = Some (MPI_ERR_OTHER, None, [5]) \<and>
       map_option (\<lambda>(e, s'). (e, map_option ref_count (objs s' 6), delete_calls s'))
         (MPIR_Comm_release del 6 s) = Some (MPI_SUCCESS, Some 1, []))"
  using MPIR_Comm_release_correct
          [of "\<lparr>objs = [5 \<mapsto> MPIR_Comm 0 1 0 1 None, 6 \<mapsto> MPIR_Comm 0 2 0 1 None],
                delete_calls = []\<rparr>" 5 "MPIR_Comm 0 1 0 1 None"
              "\<lambda>p m. (MPI_ERR_OTHER, m(p := None))"]
        MPIR_Comm_release_correct
          [of "\<lparr>objs = [5 \<mapsto> MPIR_Comm 0 1 0 1 None, 6 \<mapsto> MPIR_Comm 0 2 0 1 None],
                delete_calls = []\<rparr>" 6 "MPIR_Comm 0 2 0 1 None"
              "\<lambda>p m. (MPI_ERR_OTHER, m(p := None))"]
  by (simp add: Let_def)

section \<open>Properties of the async progress manager\<close>

text \<open>
  Claim C2.  With \<open>MPIR_CVAR_ASYNC_PROGRESS\<close> set and a provided thread level
  below \<open>MPI_THREAD_MULTIPLE\<close>, \<open>MPII_init_async\<close> returns \<open>MPI_SUCCESS\<close> and
  changes the state only by printing the warning: the device hook is not
  called, no thread is created, and \<open>MPIR_async_thread_initialized\<close> keeps its
  value.  When that flag was unset (its initial value), a following
  \<open>MPII_finalize_async\<close> returns \<open>MPI_SUCCESS\<close> and changes nothing.
\<close>

theorem MPII_init_async_degrades:
  assumes "MPIR_CVAR_ASYNC_PROGRESS env \<noteq> 0"
    and "thread_provided env < MPI_THREAD_MULTIPLE"
  shows "MPII_init_async_mt MPID_Init_async_thread env s =
           Some (MPI_SUCCESS, s\<lparr>effects := effects s @ [Printf Warn_no_thread_multiple]\<rparr>) \<and>
         (MPIR_async_thread_initialized s = 0 \<longrightarrow>
            MPII_finalize_async_mt MPID_Finalize_async_thread
              (s\<lparr>effects := effects s @ [Printf Warn_no_thread_multiple]\<rparr>) =
            (MPI_SUCCESS, s\<lparr>effects := effects s @ [Printf Warn_no_thread_multiple]\<rparr>))"
  using assms
  by (simp add: MPII_init_async_mt_def MPII_finalize_async_mt_def emit_def)

theorem MPII_init_async_degrades_witness:
  "(let env = \<lparr>MPIR_CVAR_ASYNC_PROGRESS = 1,
               MPIR_CVAR_CH4_PROGRESS_THREAD_AFFINITY = None,
               MPIR_CVAR_NUM_CLIQUES = 1, MPIR_CVAR_ODD_EVEN_CLIQUES = 0,
               thread_provided = 1,
               comm_world = MPIR_Comm 0 1 0 1 None,
               MPL_get_nprocs = 4, MPID_Thread_create = (0, 7),
               MPL_thread_set_affinity = (\<lambda>t cs. 0), uninitialized = 0\<rparr>;
        s = \<lparr>MPIR_async_thread_initialized = 0, progress_thread_id = 0, async_done = 0,
             running = [], effects = []\<rparr>;
        s' = s\<lparr>effects := [Printf Warn_no_thread_multiple]\<rparr>
    in MPII_init_async_mt (\<lambda>s. None) env s = Some (MPI_SUCCESS, s') \<and>
       MPII_finalize_async_mt MPIR_Finalize_async_thread_mt s' = (MPI_SUCCESS, s'))"
  using MPII_init_async_degrades
          [of "\<lparr>MPIR_CVAR_ASYNC_PROGRESS = 1,
               MPIR_CVAR_CH4_PROGRESS_THREAD_AFFINITY = None,
               MPIR_CVAR_NUM_CLIQUES = 1, MPIR_CVAR_ODD_EVEN_CLIQUES = 0,
               thread_provided = 1,
               comm_world = MPIR_Comm 0 1 0 1 None,
               MPL_get_nprocs = 4, MPID_Thread_create = (0, 7),
               MPL_thread_set_affinity = (\<lambda>t cs. 0), uninitialized = 0\<rparr>"
              "\<lambda>s. None"
              "\<lparr>MPIR_async_thread_initialized = 0, progress_thread_id = 0, async_done = 0,
                running = [], effects = []\<rparr>"
              MPIR_Finalize_async_thread_mt]
  by (simp add: Let_def MPI_THREAD_MULTIPLE_def)

text \<open>
  Claim C10.  In a build where the threaded bodies are not compiled in, each of
  \<open>MPIR_Init_async_thread\<close>, \<open>MPIR_Finalize_async_thread\<close>, \<open>MPII_init_async\<close>
  and \<open>MPII_finalize_async\<close> returns \<open>MPI_SUCCESS\<close> and leaves the state as it
  is, for every environment, state and device hook.
\<close>

theorem unthreaded_build_entry_points:
  assumes "\<not> threads_compiled_in cfg"
  shows "MPIR_Init_async_thread cfg env s = Some (MPI_SUCCESS, s) \<and>
         MPIR_Finalize_async_thread cfg s = (MPI_SUCCESS, s) \<and>
         MPII_init_async cfg MPID_Init_async_thread env s = Some (MPI_SUCCESS, s) \<and>
         MPII_finalize_async cfg MPID_Finalize_async_thread s = (MPI_SUCCESS, s)"
  using assms
  by (simp add: MPIR_Init_async_thread_def MPIR_Finalize_async_thread_def
      MPII_init_async_def MPII_finalize_async_def)

theorem unthreaded_build_entry_points_witness:
  "(let cfg = \<lparr>MPICH_IS_THREADED = True, MPICH_THREAD_LEVEL = 2\<rparr>;
        env = \<lparr>MPIR_CVAR_ASYNC_PROGRESS = 1,
               MPIR_CVAR_CH4_PROGRESS_THREAD_AFFINITY = Some ''0'',
               MPIR_CVAR_NUM_CLIQUES = 1, MPIR_CVAR_ODD_EVEN_CLIQUES = 0,
               thread_provided = 2,
               comm_world = MPIR_Comm 0 1 0 1 None,
               MPL_get_nprocs = 4, MPID_Thread_create = (0, 7),
               MPL_thread_set_affinity = (\<lambda>t cs. 0), uninitialized = 0\<rparr>;
        s = \<lparr>MPIR_async_thread_initialized = 1, progress_thread_id = 0, async_done = 0,
             running = [], effects = []\<rparr>
    in \<not> threads_compiled_in cfg \<and>
       MPIR_Init_async_thread cfg env s = Some (MPI_SUCCESS, s) \<and>
       MPIR_Finalize_async_thread cfg s = (MPI_SUCCESS, s) \<and>
       MPII_init_async cfg (\<lambda>s. None) env s = Some (MPI_SUCCESS, s) \<and>
       MPII_finalize_async cfg MPIR_Finalize_async_thread_mt s = (MPI_SUCCESS, s))"
  using unthreaded_build_entry_points
          [of "\<lparr>MPICH_IS_THREADED = True, MPICH_THREAD_LEVEL = 2\<rparr>"
              "\<lparr>MPIR_CVAR_ASYNC_PROGRESS = 1,
               MPIR_CVAR_CH4_PROGRESS_THREAD_AFFINITY = Some ''0'',
               MPIR_CVAR_NUM_CLIQUES = 1, MPIR_CVAR_ODD_EVEN_CLIQUES = 0,
               thread_provided = 2,
               comm_world = MPIR_Comm 0 1 0 1 None,
               MPL_get_nprocs = 4, MPID_Thread_create = (0, 7),
               MPL_thread_set_affinity = (\<lambda>t cs. 0), uninitialized = 0\<rparr>"
              "\<lparr>MPIR_async_thread_initialized = 1, progress_thread_id = 0, async_done = 0,
                running = [], effects = []\<rparr>"
              "\<lambda>s. None" MPIR_Finalize_async_thread_mt]
  by (simp add: Let_def threads_compiled_in_def MPI_THREAD_MULTIPLE_def)

subsection \<open>Shutdown and the worker loop\<close>

lemma progress_loop_stops_at_true:
  "progress_loop loads = Some (pre @ Load_async_done v # post) \<Longrightarrow> v \<noteq> 0 \<Longrightarrow> post = []"
proof (induction loads arbitrary: pre)
  case Nil
  then show ?case by simp
next
  case (Cons w ws)
  show ?case
  proof (cases "w = 0")
    case False
    with Cons.prems show ?thesis
      by (auto simp: Cons_eq_append_conv append_eq_Cons_conv)
  next
    case True
    with Cons.prems obtain tr where tr: "progress_loop ws = Some tr"
      and eq: "pre @ Load_async_done v # post =
                 Load_async_done 0 # Progress_test # CS_YIELD # tr"
      by auto
    from eq \<open>v \<noteq> 0\<close> obtain pre' where "tr = pre' @ Load_async_done v # post"
      by (auto simp: append_eq_Cons_conv)
    with tr Cons.IH \<open>v \<noteq> 0\<close> show ?thesis by blast
  qed
qed

lemma progress_loop_explicit:
  "progress_loop loads =
     (if list_all (\<lambda>v. v = 0) loads then None
      else Some (concat (replicate (length (takeWhile (\<lambda>v. v = 0) loads))
                   [Load_async_done 0, Progress_test, CS_YIELD]) @
                 [Load_async_done (hd (dropWhile (\<lambda>v. v = 0) loads))]))"
  by (induction loads) auto

lemma progress_fn_after_true:
  assumes "progress_fn loads = Some (pre @ Load_async_done v # post)" and "v \<noteq> 0"
  shows "post = [Progress_end, CS_EXIT]"
proof -
  from assms(1) obtain tr where tr: "progress_loop loads = Some tr"
    and eq: "pre @ Load_async_done v # post =
               CS_ENTER # Progress_start # tr @ [Progress_end, CS_EXIT]"
    by (auto simp: progress_fn_def)
  from eq obtain pre' where
    eq': "pre' @ Load_async_done v # post = tr @ [Progress_end, CS_EXIT]"
    by (auto simp: append_eq_Cons_conv)
  then obtain post' where "tr = pre' @ Load_async_done v # post'"
    and "post = post' @ [Progress_end, CS_EXIT]"
    by (auto simp: append_eq_append_conv2 append_eq_Cons_conv Cons_eq_append_conv)
  with tr progress_loop_stops_at_true[of loads pre' v post'] assms(2) show ?thesis
    by simp
qed

text \<open>
  Claim C4.  \<open>MPIR_Finalize_async_thread\<close> stores 1 into \<open>async_done\<close> and then
  joins the progress thread, in this order, and does nothing else.  The worker,
  for the values its loads of \<open>async_done\<close> return: it runs one progress test
  and one yield after each load of 0; at the first load of another value it
  calls \<open>MPID_Progress_end\<close>, leaves the critical section and returns (it does
  return if such a load occurs); and in every run nothing but these two steps
  follows a load that returned a value other than 0, so no progress test does.
\<close>

theorem shutdown_then_worker_exits:
  "MPIR_Finalize_async_thread_mt s =
     (MPI_SUCCESS,
      s\<lparr>async_done := 1,
        running := removeAll (progress_thread_id s) (running s),
        effects := effects s @ [Atomic_store 1, Thread_join (progress_thread_id s)]\<rparr>) \<and>
   progress_fn loads =
     (if list_all (\<lambda>v. v = 0) loads then None
      else Some ([CS_ENTER, Progress_start] @
                 concat (replicate (length (takeWhile (\<lambda>v. v = 0) loads))
                   [Load_async_done 0, Progress_test, CS_YIELD]) @
                 [Load_async_done (hd (dropWhile (\<lambda>v. v = 0) loads)),
                  Progress_end, CS_EXIT])) \<and>
   (\<forall>pre v post. progress_fn loads = Some (pre @ Load_async_done v # post) \<and> v \<noteq> 0 \<longrightarrow>
      post = [Progress_end, CS_EXIT])"
proof (intro conjI allI impI)
  show "MPIR_Finalize_async_thread_mt s =
     (MPI_SUCCESS,
      s\<lparr>async_done := 1,
        running := removeAll (progress_thread_id s) (running s),
        effects := effects s @ [Atomic_store 1, Thread_join (progress_thread_id s)]\<rparr>)"
    by (simp add: MPIR_Finalize_async_thread_mt_def MPL_atomic_store_int_def
        MPID_Thread_join_def emit_def Let_def)
next
  show "progress_fn loads =
     (if list_all (\<lambda>v. v = 0) loads then None
      else Some ([CS_ENTER, Progress_start] @
                 concat (replicate (length (takeWhile (\<lambda>v. v = 0) loads))
                   [Load_async_done 0, Progress_test, CS_YIELD]) @
                 [Load_async_done (hd (dropWhile (\<lambda>v. v = 0) loads)),
                  Progress_end, CS_EXIT]))"
    by (simp add: progress_fn_def progress_loop_explicit)
next
  fix pre v post
  assume "progress_fn loads = Some (pre @ Load_async_done v # post) \<and> v \<noteq> 0"
  then show "post = [Progress_end, CS_EXIT]"
    using progress_fn_after_true by blast
qed

theorem shutdown_then_worker_exits_witness:
  "MPIR_Finalize_async_thread_mt
     \<lparr>MPIR_async_thread_initialized = 1, progress_thread_id = 7, async_done = 0,
      running = [7], effects = []\<rparr> =
     (MPI_SUCCESS,
      \<lparr>MPIR_async_thread_initialized = 1, progress_thread_id = 7, async_done = 1,
       running = [], effects = [Atomic_store 1, Thread_join 7]\<rparr>) \<and>
   progress_fn [0, 0, 1, 0] =
     Some ([CS_ENTER, Progress_start, Load_async_done 0, Progress_test, CS_YIELD,
            Load_async_done 0, Progress_test, CS_YIELD] @
           Load_async_done 1 # [Progress_end, CS_EXIT]) \<and> (1::int) \<noteq> 0"
  using shutdown_then_worker_exits
          [of "\<lparr>MPIR_async_thread_initialized = 1, progress_thread_id = 7, async_done = 0,
                running = [7], effects = []\<rparr>" "[0, 0, 1, 0]"]
  by simp

subsection \<open>Pinning\<close>





text \<open>
  Claim C6, at an input where the code departs from it.  With the affinity
  string \<open>2,3\<close> supplied and pinning failing, \<open>MPIR_Init_async_thread\<close> returns
  an error code while the progress thread it has created (id 7) is still
  running.  \<open>MPII_init_async\<close> passes the error on and leaves
  \<open>MPIR_async_thread_initialized\<close> unset, so \<open>MPII_finalize_async\<close> does not
  stop or join that thread either.
\<close>

theorem init_error_leaves_thread_running:
  "MPIR_Init_async_thread_mt
     (example_env\<lparr>MPL_thread_set_affinity := (\<lambda>tid cores. 22),
        MPIR_CVAR_CH4_PROGRESS_THREAD_AFFINITY := Some ''2,3''\<rparr>) initial_state =
     Some (MPIR_Err_create_code MPI_SUCCESS MPI_ERR_OTHER ''**ch4|set_thread_affinity'',
           \<lparr>MPIR_async_thread_initialized = 0, progress_thread_id = 7, async_done = 0,
            running = [7],
            effects = [Malloc_ints 2, Thread_create 7, Thread_set_affinity 7 [3],
                       Free_ints]\<rparr>) \<and>
   MPII_init_async_mt
     (MPIR_Init_async_thread_mt
        (example_env\<lparr>MPL_thread_set_affinity := (\<lambda>tid cores. 22),
           MPIR_CVAR_CH4_PROGRESS_THREAD_AFFINITY := Some ''2,3''\<rparr>))
     (example_env\<lparr>MPL_thread_set_affinity := (\<lambda>tid cores. 22),
        MPIR_CVAR_CH4_PROGRESS_THREAD_AFFINITY := Some ''2,3''\<rparr>) initial_state =
     Some (MPIR_Err_create_code MPI_SUCCESS MPI_ERR_OTHER ''**ch4|set_thread_affinity'',
           \<lparr>MPIR_async_thread_initialized = 0, progress_thread_id = 7, async_done = 0,
            running = [7],
            effects = [Malloc_ints 2, Thread_create 7, Thread_set_affinity 7 [3],
                       Free_ints]\<rparr>) \<and>
   MPII_finalize_async_mt MPIR_Finalize_async_thread_mt
     \<lparr>MPIR_async_thread_initialized = 0, progress_thread_id = 7, async_done = 0,
      running = [7],
      effects = [Malloc_ints 2, Thread_create 7, Thread_set_affinity 7 [3], Free_ints]\<rparr> =
     (MPI_SUCCESS,
      \<lparr>MPIR_async_thread_initialized = 0, progress_thread_id = 7, async_done = 0,
       running = [7],
       effects = [Malloc_ints 2, Thread_create 7, Thread_set_affinity 7 [3], Free_ints]\<rparr>)"
  by code_simp

subsection \<open>The affinity table\<close>

declare default_affinity_loop.simps [simp del]

lemma size_t_of_int_small: "0 \<le> i \<Longrightarrow> i \<le> INT_MAX \<Longrightarrow> size_t_of_int i = nat i"
  by (simp add: size_t_of_int_def INT_MAX_def)

lemma int_of_size_t_small: "int n \<le> INT_MAX \<Longrightarrow> int_of_size_t n = int n"
  by (simp add: int_of_size_t_def INT_MAX_def)

lemma default_affinity_loop_invariant:
  assumes "0 < P" and "int P \<le> INT_MAX" and "N \<le> INT_MAX" and "length a = nat N"
    and "0 \<le> i" and "i \<le> N"
    and "\<forall>t < nat i. a ! t = int P - 1 - int (t mod P)"
  shows "\<exists>a'. default_affinity_loop P N i a = Some a' \<and> length a' = nat N \<and>
           (\<forall>t < nat N. a' ! t = int P - 1 - int (t mod P))"
  using assms
proof (induction P N i a rule: default_affinity_loop.induct)
  case (1 P N i a)
  show ?case
  proof (cases "i < N")
    case False
    then have stop: "default_affinity_loop P N i a = Some a"
      by (subst default_affinity_loop.simps) simp
    from False "1.prems" have "i = N" by simp
    with "1.prems" stop show ?thesis by simp
  next
    case True
    have inr: "0 \<le> i \<and> nat i < length a" using True "1.prems" by simp
    have sz: "size_t_of_int i = nat i"
      using True "1.prems" by (simp add: size_t_of_int_small)
    show ?thesis
    proof (cases "nat i < P")
      case lt: True
      let ?a = "a[nat i := int_of_size_t (P - size_t_of_int i - 1)]"
      have v: "int_of_size_t (P - size_t_of_int i - 1) = int P - 1 - int (nat i mod P)"
        using lt "1.prems" sz by (simp add: int_of_size_t_small)
      have inv: "\<forall>t < nat (i + 1). ?a ! t = int P - 1 - int (t mod P)"
      proof (intro allI impI)
        fix t assume "t < nat (i + 1)"
        then have "t < nat i \<or> t = nat i" using inr by linarith
        then show "?a ! t = int P - 1 - int (t mod P)"
          using "1.prems"(7) v inr by (auto simp: nth_list_update)
      qed
      have "\<exists>a'. default_affinity_loop P N (i + 1) ?a = Some a' \<and> length a' = nat N \<and>
             (\<forall>t < nat N. a' ! t = int P - 1 - int (t mod P))"
        using "1.IH"(1)[OF True inr] lt sz "1.prems" True inv by simp
      then show ?thesis
        using True inr lt sz by (simp add: default_affinity_loop.simps[of P N i a])
    next
      case ge: False
      let ?a = "a[nat i := a ! (size_t_of_int i mod P)]"
      have P0: "P \<noteq> 0" using "1.prems" by simp
      have "nat i mod P < nat i" using ge "1.prems"(1)
        by (meson leI less_le_trans mod_less_divisor)
      then have v: "a ! (size_t_of_int i mod P) = int P - 1 - int (nat i mod P)"
        using "1.prems"(7) sz by simp
      have inv: "\<forall>t < nat (i + 1). ?a ! t = int P - 1 - int (t mod P)"
      proof (intro allI impI)
        fix t assume "t < nat (i + 1)"
        then have "t < nat i \<or> t = nat i" using inr by linarith
        then show "?a ! t = int P - 1 - int (t mod P)"
          using "1.prems"(7) v inr by (auto simp: nth_list_update)
      qed
      have ns: "\<not> size_t_of_int i < P" using ge sz by simp
      have "\<exists>a'. default_affinity_loop P N (i + 1) ?a = Some a' \<and> length a' = nat N \<and>
             (\<forall>t < nat N. a' ! t = int P - 1 - int (t mod P))"
        using "1.IH"(2)[OF True inr ns P0] "1.prems" True inv by simp
      then show ?thesis
        using True inr ns P0 by (simp add: default_affinity_loop.simps[of P N i a])
    qed
  qed
qed

text \<open>
  Claim C7.  With no affinity specification (\<open>NULL\<close> or the empty string), a
  detected processor count \<open>P \<ge> 1\<close> and a table of \<open>N\<close> slots,
  \<open>MPIDI_parse_progress_thread_affinity\<close> succeeds, prints nothing and fills
  the table so that slot \<open>t < P\<close> holds \<open>P - 1 - t\<close> and slot \<open>t \<ge> P\<close> holds what
  slot \<open>t mod P\<close> holds; altogether slot \<open>t\<close> holds \<open>P - 1 - t mod P\<close>.  (\<open>P\<close>
  and \<open>N\<close> are values of the C type \<open>int\<close>.)
\<close>

theorem default_affinity_descends_and_wraps:
  assumes "\<not> user_affinity env"
    and "1 \<le> MPL_get_nprocs env" and "MPL_get_nprocs env \<le> INT_MAX"
    and "N \<le> INT_MAX" and "length thread_affinity = nat N"
  shows "\<exists>a. MPIDI_parse_progress_thread_affinity env thread_affinity N =
                Some (MPI_SUCCESS, a, []) \<and>
              length a = nat N \<and>
              (\<forall>t < nat N.
                 (int t < MPL_get_nprocs env \<longrightarrow> a ! t = MPL_get_nprocs env - 1 - int t) \<and>
                 (MPL_get_nprocs env \<le> int t \<longrightarrow>
                    a ! t = a ! (t mod nat (MPL_get_nprocs env))) \<and>
                 a ! t = MPL_get_nprocs env - 1 - int t mod MPL_get_nprocs env)"
proof -
  let ?P = "size_t_of_int (MPL_get_nprocs env)"
  have P: "?P = nat (MPL_get_nprocs env)"
    using assms(2,3) by (simp add: size_t_of_int_small)
  have Ppos: "0 < ?P" and Pmax: "int ?P \<le> INT_MAX"
    using P assms(2,3) by simp_all
  show ?thesis
  proof (cases "0 \<le> N")
    case True
    obtain a where loop: "default_affinity_loop ?P N 0 thread_affinity = Some a"
      and len: "length a = nat N"
      and val: "\<forall>t < nat N. a ! t = int ?P - 1 - int (t mod ?P)"
      using default_affinity_loop_invariant[OF Ppos Pmax assms(4) assms(5), of 0] True
      by auto
    have parse: "MPIDI_parse_progress_thread_affinity env thread_affinity N =
                   Some (MPI_SUCCESS, a, [])"
      using assms(1) loop
      by (simp add: MPIDI_parse_progress_thread_affinity_def user_affinity_def Let_def
          split: option.splits)
    have "\<forall>t < nat N.
            (int t < MPL_get_nprocs env \<longrightarrow> a ! t = MPL_get_nprocs env - 1 - int t) \<and>
            (MPL_get_nprocs env \<le> int t \<longrightarrow> a ! t = a ! (t mod nat (MPL_get_nprocs env))) \<and>
            a ! t = MPL_get_nprocs env - 1 - int t mod MPL_get_nprocs env"
    proof (intro allI impI)
      fix t assume t: "t < nat N"
      have m: "t mod ?P < nat N"
        using t by (meson le_less_trans mod_less_eq_dividend)
      have e1: "a ! t = int ?P - 1 - int (t mod ?P)" using val t by simp
      have e2: "a ! (t mod ?P) = int ?P - 1 - int (t mod ?P)" using val m by simp
      have e3: "int (t mod ?P) = int t mod MPL_get_nprocs env"
        using P assms(2) by (simp add: zmod_int)
      show "(int t < MPL_get_nprocs env \<longrightarrow> a ! t = MPL_get_nprocs env - 1 - int t) \<and>
            (MPL_get_nprocs env \<le> int t \<longrightarrow> a ! t = a ! (t mod nat (MPL_get_nprocs env))) \<and>
            a ! t = MPL_get_nprocs env - 1 - int t mod MPL_get_nprocs env"
        using e1 e2 e3 P assms(2) by auto
    qed
    with parse len show ?thesis by blast
  next
    case False
    then have "default_affinity_loop ?P N 0 thread_affinity = Some thread_affinity"
      by (simp add: default_affinity_loop.simps[of ?P N 0 thread_affinity])
    then have "MPIDI_parse_progress_thread_affinity env thread_affinity N =
                   Some (MPI_SUCCESS, thread_affinity, [])"
      using assms(1)
      by (simp add: MPIDI_parse_progress_thread_affinity_def user_affinity_def Let_def
          split: option.splits)
    with False assms(5) show ?thesis by simp
  qed
qed

theorem default_affinity_descends_and_wraps_witness:
  "\<not> user_affinity example_env \<and> MPL_get_nprocs example_env = 4 \<and>
   (\<exists>a. MPIDI_parse_progress_thread_affinity example_env [9, 9, 9, 9, 9, 9, 9] 7 =
           Some (MPI_SUCCESS, a, []) \<and>
         a ! 0 = 3 \<and> a ! 1 = 2 \<and> a ! 2 = 1 \<and> a ! 3 = 0 \<and>
         a ! 4 = a ! 0 \<and> a ! 5 = a ! 1 \<and> a ! 6 = a ! 2)"
proof -
  have u: "\<not> user_affinity example_env"
    by (simp add: example_env_def user_affinity_def)
  have p: "MPL_get_nprocs example_env = 4"
    by (simp add: example_env_def)
  have h: "1 \<le> MPL_get_nprocs example_env" "MPL_get_nprocs example_env \<le> INT_MAX"
    "(7::int) \<le> INT_MAX" "length [9, 9, 9, 9, 9, 9, 9 :: int] = nat 7"
    by (simp_all add: p INT_MAX_def)
  from default_affinity_descends_and_wraps[OF u h]
  obtain a where a: "MPIDI_parse_progress_thread_affinity example_env [9, 9, 9, 9, 9, 9, 9] 7 =
                       Some (MPI_SUCCESS, a, [])"
    and v: "\<forall>t < nat 7.
              (int t < MPL_get_nprocs example_env \<longrightarrow>
                 a ! t = MPL_get_nprocs example_env - 1 - int t) \<and>
              (MPL_get_nprocs example_env \<le> int t \<longrightarrow>
                 a ! t = a ! (t mod nat (MPL_get_nprocs example_env))) \<and>
              a ! t = MPL_get_nprocs example_env - 1 - int t mod MPL_get_nprocs example_env"
    by blast
  have "a ! 0 = 3" "a ! 1 = 2" "a ! 2 = 1" "a ! 3 = 0"
    "a ! 4 = a ! 0" "a ! 5 = a ! 1" "a ! 6 = a ! 2"
    using v[rule_format, of 0] v[rule_format, of 1] v[rule_format, of 2]
      v[rule_format, of 3] v[rule_format, of 4] v[rule_format, of 5] v[rule_format, of 6]
    by (simp_all add: p)
  with u p a show ?thesis by blast
qed

subsection \<open>Size and index of the affinity table\<close>

lemma num_cliques_override: "num_cliques env > 1 \<longleftrightarrow> clique_override env"
  by (auto simp: num_cliques_def clique_override_def)

lemma threads_per_node_cases:
  "threads_per_node env =
     (if clique_override env then local_size (comm_world env)
      else (case node_comm (comm_world env) of Some nc \<Rightarrow> local_size nc | None \<Rightarrow> 1))"
  by (simp add: threads_per_node_def num_cliques_override)

lemma affinity_idx_cases:
  "affinity_idx env =
     (if clique_override env then rank (comm_world env)
      else (case node_comm (comm_world env) of Some nc \<Rightarrow> rank nc | None \<Rightarrow> 0))"
  by (simp add: affinity_idx_def num_cliques_override Let_def)

lemma init_effects_start:
  assumes "MPIR_Init_async_thread_mt env s = Some (e, s')"
  shows "\<exists>post. effects s' =
           effects s @
           (if clique_override env \<and> user_affinity env
            then [Fprintf_stderr Warn_cliques_affinity] else []) @
           Malloc_ints (threads_per_node env) # post"
  using assms
  by (auto simp: MPIR_Init_async_thread_mt_def Let_def emit_def num_cliques_override
      split: option.splits prod.splits if_splits)

lemma init_effects_pinned:
  assumes "MPIDI_parse_progress_thread_affinity env
             (replicate (nat (threads_per_node env)) (uninitialized env))
             (threads_per_node env) = Some (MPI_SUCCESS, aff, printed)"
    and "MPID_Thread_create env = (0, tid)"
    and "0 \<le> affinity_idx env" and "nat (affinity_idx env) < length aff"
  shows "map_option (\<lambda>r. effects (snd r)) (MPIR_Init_async_thread_mt env s) =
           Some (effects s @
             (if clique_override env \<and> user_affinity env
              then [Fprintf_stderr Warn_cliques_affinity] else []) @
             [Malloc_ints (threads_per_node env)] @ printed @
             [Thread_create tid, Thread_set_affinity tid [aff ! nat (affinity_idx env)],
              Free_ints])"
  using assms
  by (simp add: MPIR_Init_async_thread_mt_def Let_def emit_def num_cliques_override)

text \<open>
  Claim C9.  With a clique override (\<open>MPIR_CVAR_NUM_CLIQUES > 1\<close> or
  \<open>MPIR_CVAR_ODD_EVEN_CLIQUES\<close> set) \<open>MPIR_Init_async_thread\<close> allocates a table
  of as many entries as \<open>MPI_COMM_WORLD\<close> has processes and pins the thread to
  the entry at the rank in \<open>MPI_COMM_WORLD\<close>; otherwise the table has as many
  entries as the node communicator has processes (1 without a node
  communicator) and the entry at the rank in the node communicator (0 without
  one) is used.  Every returning run allocates a table of that size; a run in
  which parsing and thread creation succeed pins the thread to that entry.
\<close>

theorem affinity_table_size_and_index:
  assumes "N = (if clique_override env then local_size (comm_world env)
                else (case node_comm (comm_world env) of
                        Some nc \<Rightarrow> local_size nc | None \<Rightarrow> 1))"
    and "idx = (if clique_override env then rank (comm_world env)
                else (case node_comm (comm_world env) of
                        Some nc \<Rightarrow> rank nc | None \<Rightarrow> 0))"
  shows "threads_per_node env = N \<and> affinity_idx env = idx \<and>
         (\<forall>e s'. MPIR_Init_async_thread_mt env s = Some (e, s') \<longrightarrow>
            (\<exists>post. effects s' =
               effects s @
               (if clique_override env \<and> user_affinity env
                then [Fprintf_stderr Warn_cliques_affinity] else []) @
               Malloc_ints N # post)) \<and>
         (\<forall>aff printed tid.
            MPIDI_parse_progress_thread_affinity env
              (replicate (nat N) (uninitialized env)) N = Some (MPI_SUCCESS, aff, printed) \<and>
            MPID_Thread_create env = (0, tid) \<and> 0 \<le> idx \<and> nat idx < length aff \<longrightarrow>
            map_option (\<lambda>r. effects (snd r)) (MPIR_Init_async_thread_mt env s) =
              Some (effects s @
                (if clique_override env \<and> user_affinity env
                 then [Fprintf_stderr Warn_cliques_affinity] else []) @
                [Malloc_ints N] @ printed @
                [Thread_create tid, Thread_set_affinity tid [aff ! nat idx], Free_ints]))"
proof -
  have N: "threads_per_node env = N"
    using assms(1) by (simp add: threads_per_node_cases)
  have idx: "affinity_idx env = idx"
    using assms(2) by (simp add: affinity_idx_cases)
  show ?thesis
    using N idx init_effects_start[of env s] init_effects_pinned[of env _ _ _ s]
    by blast
qed

theorem affinity_table_size_and_index_witness:
  "map_option (\<lambda>r. effects (snd r))
     (MPIR_Init_async_thread_mt
        (example_env\<lparr>comm_world := MPIR_Comm 0 1 3 4 (Some (MPIR_Comm 0 1 1 2 None)),
           MPIR_CVAR_ODD_EVEN_CLIQUES := 1\<rparr>) initial_state) =
     Some [Malloc_ints 4, Thread_create 7, Thread_set_affinity 7 [[3, 2, 1, 0] ! 3], Free_ints] \<and>
   map_option (\<lambda>r. effects (snd r))
     (MPIR_Init_async_thread_mt
        (example_env\<lparr>comm_world := MPIR_Comm 0 1 3 4 (Some (MPIR_Comm 0 1 1 2 None))\<rparr>)
        initial_state) =
     Some [Malloc_ints 2, Thread_create 7, Thread_set_affinity 7 [[3, 2] ! 1], Free_ints]"
proof -
  let ?e1 = "example_env\<lparr>comm_world := MPIR_Comm 0 1 3 4 (Some (MPIR_Comm 0 1 1 2 None)),
               MPIR_CVAR_ODD_EVEN_CLIQUES := 1\<rparr>"
  let ?e2 = "example_env\<lparr>comm_world := MPIR_Comm 0 1 3 4 (Some (MPIR_Comm 0 1 1 2 None))\<rparr>"
  have o1: "clique_override ?e1" and o2: "\<not> clique_override ?e2"
    by (simp_all add: example_env_def clique_override_def)
  have n1: "(4::int) = (if clique_override ?e1 then local_size (comm_world ?e1)
                else (case node_comm (comm_world ?e1) of
                        Some nc \<Rightarrow> local_size nc | None \<Rightarrow> 1))"
    and i1: "(3::int) = (if clique_override ?e1 then rank (comm_world ?e1)
                else (case node_comm (comm_world ?e1) of
                        Some nc \<Rightarrow> rank nc | None \<Rightarrow> 0))"
    using o1 by (simp_all add: example_env_def)
  have n2: "(2::int) = (if clique_override ?e2 then local_size (comm_world ?e2)
                else (case node_comm (comm_world ?e2) of
                        Some nc \<Rightarrow> local_size nc | None \<Rightarrow> 1))"
    and i2: "(1::int) = (if clique_override ?e2 then rank (comm_world ?e2)
                else (case node_comm (comm_world ?e2) of
                        Some nc \<Rightarrow> rank nc | None \<Rightarrow> 0))"
    using o2 by (simp_all add: example_env_def)
  have p1: "MPIDI_parse_progress_thread_affinity ?e1
              (replicate (nat 4) (uninitialized ?e1)) 4 = Some (MPI_SUCCESS, [3, 2, 1, 0], [])"
    by code_simp
  have p2: "MPIDI_parse_progress_thread_affinity ?e2
              (replicate (nat 2) (uninitialized ?e2)) 2 = Some (MPI_SUCCESS, [3, 2], [])"
    by code_simp
  have c: "MPID_Thread_create ?e1 = (0, 7)" "MPID_Thread_create ?e2 = (0, 7)"
    by (simp_all add: example_env_def)
  have u: "\<not> user_affinity ?e1" "\<not> user_affinity ?e2"
    by (simp_all add: example_env_def user_affinity_def)
  have s: "effects initial_state = []"
    by (simp add: initial_state_def)
  show ?thesis
    using affinity_table_size_and_index[OF n1 i1, of initial_state] p1
      affinity_table_size_and_index[OF n2 i2, of initial_state] p2 c u s
    by simp
qed

subsection \<open>Parsing a user-supplied specification\<close>

declare parse_affinity_loop.simps [simp del]

lemma strsep_scan_last:
  "\<forall>c \<in> set e. c \<notin> set delim \<Longrightarrow> strsep_scan delim e = (e, None)"
  by (induction e) auto

lemma strsep_scan_entry:
  "\<forall>c \<in> set e. c \<notin> set delim \<Longrightarrow> d \<in> set delim \<Longrightarrow>
   strsep_scan delim (e @ d # r) = (e, Some r)"
  by (induction e) auto

lemma isdigit_not_delim: "isdigit c \<Longrightarrow> c \<notin> set affinity_delims"
  by (auto simp: isdigit_def affinity_delims_def)

lemma isdigit_not_space: "isdigit c \<Longrightarrow> \<not> isspace c"
  by (auto simp: isdigit_def isspace_def)

lemma isdigit_not_sign: "isdigit c \<Longrightarrow> c \<noteq> CHR ''-'' \<and> c \<noteq> CHR ''+''"
  by (auto simp: isdigit_def)

lemma digit_val_nonneg: "isdigit c \<Longrightarrow> 0 \<le> digit_val c"
  by (auto simp: isdigit_def digit_val_def)

lemma digits_val_foldl:
  "list_all isdigit str \<Longrightarrow> digits_val acc str = foldl (\<lambda>a c. 10 * a + digit_val c) acc str"
  by (induction str arbitrary: acc) auto

lemma foldl_digits_nonneg:
  "list_all isdigit str \<Longrightarrow> 0 \<le> acc \<Longrightarrow> 0 \<le> foldl (\<lambda>a c. 10 * a + digit_val c) acc str"
  by (induction str arbitrary: acc) (auto simp: digit_val_nonneg)

lemma decimal_value_nonneg: "list_all isdigit str \<Longrightarrow> 0 \<le> decimal_value str"
  by (simp add: decimal_value_def foldl_digits_nonneg)

lemma atoi_entry:
  assumes "affinity_entry str"
  shows "atoi str = Some (decimal_value str)"
proof -
  from assms obtain c cs where str: "str = c # cs" and c: "isdigit c"
    and all: "list_all isdigit str" and le: "decimal_value str \<le> INT_MAX"
    by (cases str) (auto simp: affinity_entry_def)
  have "strtol10 str = digits_val 0 str"
    using c by (simp add: strtol10_def str isdigit_not_space isdigit_not_sign)
  then have "strtol10 str = decimal_value str"
    using all by (simp add: digits_val_foldl decimal_value_def)
  moreover have "INT_MIN \<le> decimal_value str"
    using decimal_value_nonneg[OF all] by (simp add: INT_MIN_def)
  ultimately show ?thesis
    using le by (simp add: atoi_def)
qed

lemma strsep_entry_last:
  "affinity_entry e \<Longrightarrow> MPL_strsep (Some e) affinity_delims = (Some e, None)"
  by (simp add: MPL_strsep_def affinity_entry_def strsep_scan_last isdigit_not_delim
      list_all_iff)

lemma strsep_entry_more:
  "affinity_entry e \<Longrightarrow> d \<in> set affinity_delims \<Longrightarrow>
   MPL_strsep (Some (e @ d # r)) affinity_delims = (Some e, Some r)"
  by (simp add: MPL_strsep_def affinity_entry_def strsep_scan_entry isdigit_not_delim
      list_all_iff)

lemma parse_affinity_loop_done:
  "\<not> i < N \<Longrightarrow> parse_affinity_loop str N i tmp a rc = Some (MPI_SUCCESS, a, rc, [])"
  by (subst parse_affinity_loop.simps) simp

lemma parse_affinity_loop_step:
  assumes "i < N" and "MPL_strsep tmp affinity_delims = (Some tok, tmp')"
    and "atoi tok = Some v" and "0 \<le> v" and "0 \<le> i" and "nat i < length a"
  shows "parse_affinity_loop str N i tmp a rc =
           parse_affinity_loop str N (i + 1) tmp' (a[nat i := v]) (rc + 1)"
  using assms by (subst parse_affinity_loop.simps) simp

lemma affinity_spec_Cons:
  "affinity_spec e ((d, e') # rest) = e @ d # affinity_spec e' rest"
  by (simp add: affinity_spec_def)

lemma parse_affinity_loop_well_formed:
  assumes "affinity_entry e"
    and "\<forall>(d, e') \<in> set rest. d \<in> set affinity_delims \<and> affinity_entry e'"
    and "0 \<le> i" and "N = i + 1 + int (length rest)" and "nat N \<le> length a"
  shows "parse_affinity_loop str N i (Some (affinity_spec e rest)) a rc =
           Some (MPI_SUCCESS,
                 take (nat i) a @ map decimal_value (e # map snd rest) @ drop (nat N) a,
                 rc + 1 + int (length rest), [])"
  using assms
proof (induction rest arbitrary: e i a rc)
  case Nil
  have v: "atoi e = Some (decimal_value e)" "0 \<le> decimal_value e"
    using Nil.prems(1) by (simp_all add: atoi_entry affinity_entry_def decimal_value_nonneg)
  have "parse_affinity_loop str N i (Some (affinity_spec e [])) a rc =
          parse_affinity_loop str N (i + 1) None (a[nat i := decimal_value e]) (rc + 1)"
    using Nil.prems v
    by (intro parse_affinity_loop_step) (simp_all add: affinity_spec_def strsep_entry_last)
  also have "\<dots> = Some (MPI_SUCCESS, a[nat i := decimal_value e], rc + 1, [])"
    using Nil.prems by (simp add: parse_affinity_loop_done)
  also have "a[nat i := decimal_value e] =
               take (nat i) a @ map decimal_value (e # map snd []) @ drop (nat N) a"
    using Nil.prems by (simp add: upd_conv_take_nth_drop nat_add_distrib)
  finally show ?case by simp
next
  case (Cons x rest)
  obtain d e' where x: "x = (d, e')" by (cases x)
  have d: "d \<in> set affinity_delims" and e': "affinity_entry e'"
    and rest: "\<forall>(d, e') \<in> set rest. d \<in> set affinity_delims \<and> affinity_entry e'"
    using Cons.prems(2) x by auto
  have v: "atoi e = Some (decimal_value e)" "0 \<le> decimal_value e"
    using Cons.prems(1) by (simp_all add: atoi_entry affinity_entry_def decimal_value_nonneg)
  let ?a = "a[nat i := decimal_value e]"
  have "parse_affinity_loop str N i (Some (affinity_spec e (x # rest))) a rc =
          parse_affinity_loop str N (i + 1) (Some (affinity_spec e' rest)) ?a (rc + 1)"
    using Cons.prems v d
    by (intro parse_affinity_loop_step)
       (simp_all add: x affinity_spec_Cons strsep_entry_more)
  also have "\<dots> = Some (MPI_SUCCESS,
                 take (nat (i + 1)) ?a @ map decimal_value (e' # map snd rest) @ drop (nat N) ?a,
                 rc + 1 + 1 + int (length rest), [])"
    using Cons.prems by (intro Cons.IH[OF e' rest]) simp_all
  also have "take (nat (i + 1)) ?a @ map decimal_value (e' # map snd rest) @ drop (nat N) ?a =
             take (nat i) a @ map decimal_value (e # map snd (x # rest)) @ drop (nat N) a"
  proof -
    have i: "nat i < length a" "nat (i + 1) = Suc (nat i)" "Suc (nat i) \<le> nat N"
      using Cons.prems by simp_all
    then have "take (nat (i + 1)) ?a = take (nat i) a @ [decimal_value e]"
      by (simp add: take_Suc_conv_app_nth)
    moreover have "nat i < nat N"
      using i by linarith
    then have "drop (nat N) ?a = drop (nat N) a"
      by (rule drop_update_cancel)
    ultimately show ?thesis by (simp add: x)
  qed
  finally show ?case by simp
qed

text \<open>
  Claim C8, as amended.  For a specification made of \<open>N\<close> entries, each a
  non-empty string of decimal digits whose value is an \<open>int\<close>, with exactly one
  delimiter character (comma, space, tab or newline) between consecutive
  entries and none before the first or after the last entry,
  \<open>MPIDI_parse_progress_thread_affinity\<close> with \<open>N\<close> thread slots succeeds,
  prints nothing and yields the \<open>N\<close> values in the order given; \<open>0,1\<close> with
  2 threads yields \<open>[0, 1]\<close>.
\<close>

theorem well_formed_affinity_parsed_in_order:
  assumes "MPIR_CVAR_CH4_PROGRESS_THREAD_AFFINITY env = Some (affinity_spec e rest)"
    and "affinity_entry e"
    and "\<forall>(d, e') \<in> set rest. d \<in> set affinity_delims \<and> affinity_entry e'"
    and "N = 1 + int (length rest)" and "length thread_affinity = nat N"
  shows "MPIDI_parse_progress_thread_affinity env thread_affinity N =
           Some (MPI_SUCCESS, map decimal_value (e # map snd rest), [])"
proof -
  have ne: "affinity_spec e rest \<noteq> []"
    using assms(2) by (simp add: affinity_spec_def affinity_entry_def)
  have "parse_affinity_loop (affinity_spec e rest) N 0 (Some (affinity_spec e rest))
          thread_affinity 0 =
        Some (MPI_SUCCESS,
              take (nat 0) thread_affinity @ map decimal_value (e # map snd rest) @
              drop (nat N) thread_affinity,
              0 + 1 + int (length rest), [])"
    using assms by (intro parse_affinity_loop_well_formed) simp_all
  then show ?thesis
    using assms ne
    by (simp add: MPIDI_parse_progress_thread_affinity_def Let_def)
qed

theorem well_formed_affinity_parsed_in_order_witness:
  "MPIDI_parse_progress_thread_affinity
     (example_env\<lparr>MPIR_CVAR_CH4_PROGRESS_THREAD_AFFINITY := Some ''0,1''\<rparr>) [9, 9] 2 =
     Some (MPI_SUCCESS, [0, 1], []) \<and>
   MPIDI_parse_progress_thread_affinity
     (example_env\<lparr>MPIR_CVAR_CH4_PROGRESS_THREAD_AFFINITY := Some ''12 007,3''\<rparr>)
     [9, 9, 9] 3 =
     Some (MPI_SUCCESS, [12, 7, 3], [])"
proof -
  have s1: "MPIR_CVAR_CH4_PROGRESS_THREAD_AFFINITY
              (example_env\<lparr>MPIR_CVAR_CH4_PROGRESS_THREAD_AFFINITY := Some ''0,1''\<rparr>) =
            Some (affinity_spec ''0'' [(CHR '','', ''1'')])"
    and s2: "MPIR_CVAR_CH4_PROGRESS_THREAD_AFFINITY
              (example_env\<lparr>MPIR_CVAR_CH4_PROGRESS_THREAD_AFFINITY := Some ''12 007,3''\<rparr>) =
            Some (affinity_spec ''12'' [(CHR '' '', ''007''), (CHR '','', ''3'')])"
    by (simp_all add: affinity_spec_def)
  have e1: "affinity_entry ''0''" and e2: "affinity_entry ''12''"
    by code_simp+
  have r1: "\<forall>(d, e') \<in> set [(CHR '','', ''1'')]. d \<in> set affinity_delims \<and> affinity_entry e'"
    and r2: "\<forall>(d, e') \<in> set [(CHR '' '', ''007''), (CHR '','', ''3'')].
               d \<in> set affinity_delims \<and> affinity_entry e'"
    by code_simp+
  have v: "map decimal_value (''0'' # map snd [(CHR '','', ''1'')]) = [0, 1]"
    "map decimal_value (''12'' # map snd [(CHR '' '', ''007''), (CHR '','', ''3'')]) =
       [12, 7, 3]"
    by code_simp+
  show ?thesis
    using well_formed_affinity_parsed_in_order[OF s1 e1 r1, of 2 "[9, 9]"]
      well_formed_affinity_parsed_in_order[OF s2 e2 r2, of 3 "[9, 9, 9]"] v
    by simp
qed

text \<open>
  Claim C8 as stated fails: in the specification \<open>0, 1\<close> the two entries 0
  and 1 are separated by a comma and a space.  \<open>MPL_strsep\<close> ends a field at
  each delimiter character, so the second field is the empty string between
  the comma and the space, which \<open>atoi\<close> reads as 0: with 2 threads the
  parser succeeds with the table \<open>[0, 0]\<close>, not \<open>[0, 1]\<close>.
\<close>

theorem adjacent_delimiters_give_empty_field:
  "MPIDI_parse_progress_thread_affinity
     (example_env\<lparr>MPIR_CVAR_CH4_PROGRESS_THREAD_AFFINITY := Some ''0, 1''\<rparr>) [9, 9] 2 =
     Some (MPI_SUCCESS, [0, 0], [])"
  by code_simp










end
